theory Spec2Isabelle
  imports Main "HOL-Library.Sublist"
begin

section \<open>Python values, exceptions and the process state\<close>

text \<open>
  The module \<^verbatim>\<open>templates/python-flask/html/app.py\<close> uses three things of the Python
  runtime: the mapping \<^verbatim>\<open>os.environ\<close>, the builtin \<^verbatim>\<open>int\<close> and exceptions.
  A Python string is the list of its code points; \<open>ustr\<close> gives the code points of a
  string written in this text.
\<close>

datatype exn =
    ValueError "nat list"
  | OSError string
  | OverflowError string
  | RuntimeError string

datatype pyval = PyStr "nat list" | PyInt int

definition ustr :: "string \<Rightarrow> nat list" where
  "ustr s = map of_char s"

text \<open>
  The state of the running process that the module can observe or change: the environment,
  a log of the keys read from it, the calls of \<^verbatim>\<open>app.run\<close> made so far (host and port),
  the address the development server is listening on, if any, and the interpreter's limit
  on the digits of a string given to \<^verbatim>\<open>int\<close> (\<^verbatim>\<open>sys.get_int_max_str_digits()\<close>).
\<close>

record process =
  environ :: "string \<rightharpoonup> nat list"
  env_reads :: "string list"
  run_calls :: "(string \<times> int) list"
  serving :: "(string \<times> int) option"
  int_max_str_digits :: nat

text \<open>\<^verbatim>\<open>os.environ.get(key, default)\<close>: the value of the key, or the default as it is.\<close>

definition environ_get :: "string \<Rightarrow> pyval \<Rightarrow> process \<Rightarrow> pyval \<times> process" where
  "environ_get key dflt p =
     ((case environ p key of None \<Rightarrow> dflt | Some v \<Rightarrow> PyStr v),
      p\<lparr>env_reads := env_reads p @ [key]\<rparr>)"

subsection \<open>The builtin int\<close>

text \<open>
  \<^verbatim>\<open>int(x)\<close> returns an integer argument unchanged. A string is converted in base 10 as
  CPython 3.11 does it, in two steps. First every character from code point 127 on is
  replaced: Unicode whitespace by a space, a Unicode decimal digit by the ASCII digit of
  its value, and at the first other character the string is cut and ends in a question
  mark. Characters below 127 stay as they are. The resulting ASCII string is then read:
  ASCII whitespace at both ends is skipped, one sign is allowed, then come digits, with
  single underscores allowed between two digits. A string with more digits than the
  interpreter's limit (\<^verbatim>\<open>sys.get_int_max_str_digits()\<close>, 4300 unless configured, 0 for no
  limit, applied above 640 digits) is refused. Every refusal raises \<^verbatim>\<open>ValueError\<close>, which
  carries the string given to \<^verbatim>\<open>int\<close> here.
\<close>

text \<open>\<^verbatim>\<open>Py_ISSPACE\<close>: tab, line feed, vertical tab, form feed, carriage return, space.\<close>

definition py_isspace :: "nat \<Rightarrow> bool" where
  "py_isspace c = (c \<in> {9, 10, 11, 12, 13, 32})"

text \<open>\<^verbatim>\<open>Py_UNICODE_ISSPACE\<close>, the whitespace of Unicode 14.0.\<close>

definition unicode_isspace :: "nat \<Rightarrow> bool" where
  "unicode_isspace c =
     (c \<in> {9, 10, 11, 12, 13, 28, 29, 30, 31, 32, 133, 160, 5760, 8232, 8233, 8239, 8287, 12288}
      \<or> (8192 \<le> c \<and> c \<le> 8202))"

text \<open>
  The code points of the digit zero in each of the 66 scripts with decimal digits of
  Unicode 14.0; the ten digits of a script are consecutive.
\<close>

definition decimal_zeros :: "nat list" where
  "decimal_zeros =
     [48, 1632, 1776, 1984, 2406, 2534, 2662, 2790, 2918, 3046, 3174, 3302, 3430,
      3558, 3664, 3792, 3872, 4160, 4240, 6112, 6160, 6470, 6608, 6784, 6800, 6992,
      7088, 7232, 7248, 42528, 43216, 43264, 43472, 43504, 43600, 44016, 65296,
      66720, 68912, 69734, 69872, 69942, 70096, 70384, 70736, 70864, 71248, 71360,
      71472, 71904, 72016, 72784, 73040, 73120, 92768, 92864, 93008, 120782, 120792,
      120802, 120812, 120822, 123200, 123632, 125264, 130032]"

text \<open>\<^verbatim>\<open>Py_UNICODE_TODECIMAL\<close>: the value of a decimal digit, if the character is one.\<close>

definition unicode_todecimal :: "nat \<Rightarrow> nat option" where
  "unicode_todecimal c =
     (case find (\<lambda>z. z \<le> c \<and> c < z + 10) decimal_zeros of
        None \<Rightarrow> None
      | Some z \<Rightarrow> Some (c - z))"

text \<open>The first step: 32 is the space, 63 the question mark, 48 the digit zero.\<close>

fun transform_to_ascii :: "nat list \<Rightarrow> nat list" where
  "transform_to_ascii [] = []"
| "transform_to_ascii (c # cs) =
     (if c < 127 then c # transform_to_ascii cs
      else if unicode_isspace c then 32 # transform_to_ascii cs
      else (case unicode_todecimal c of
              None \<Rightarrow> [63]
            | Some d \<Rightarrow> (48 + d) # transform_to_ascii cs))"

definition is_digit :: "nat \<Rightarrow> bool" where
  "is_digit c = (48 \<le> c \<and> c \<le> 57)"

definition digit_value :: "nat \<Rightarrow> nat" where
  "digit_value c = c - 48"

text \<open>The value of a run of digits and underscores (95); an underscore needs a digit after it.\<close>

fun digits_value :: "nat list \<Rightarrow> nat \<Rightarrow> nat option" where
  "digits_value [] acc = Some acc"
| "digits_value (c # cs) acc =
     (if c = 95 then
        (case cs of
           [] \<Rightarrow> None
         | d # _ \<Rightarrow> if is_digit d then digits_value cs acc else None)
      else if is_digit c then digits_value cs (acc * 10 + digit_value c)
      else None)"

text \<open>
  The second step, on the ASCII string, with the limit \<open>m\<close> on the number of digits:
  45 is the minus sign, 43 the plus sign. The run of digits and underscores must begin
  with a digit, and only whitespace may follow it.
\<close>

definition long_from_string :: "nat \<Rightarrow> nat list \<Rightarrow> int option" where
  "long_from_string m t =
     (let s = dropWhile py_isspace t;
          neg = (case s of c # _ \<Rightarrow> c = 45 | [] \<Rightarrow> False);
          r = (case s of c # cs \<Rightarrow> if c = 45 \<or> c = 43 then cs else s | [] \<Rightarrow> []);
          ds = takeWhile (\<lambda>c. is_digit c \<or> c = 95) r;
          rest = dropWhile (\<lambda>c. is_digit c \<or> c = 95) r;
          digits = length (filter is_digit ds)
      in if 640 < digits \<and> 0 < m \<and> m < digits then None
         else if dropWhile py_isspace rest \<noteq> [] then None
         else
           (case ds of
              [] \<Rightarrow> None
            | d # _ \<Rightarrow>
                if is_digit d then
                  (case digits_value ds 0 of
                     None \<Rightarrow> None
                   | Some n \<Rightarrow> Some (if neg then - int n else int n))
                else None))"

definition int_of_str :: "nat \<Rightarrow> nat list \<Rightarrow> exn + int" where
  "int_of_str m s =
     (case long_from_string m (transform_to_ascii s) of
        None \<Rightarrow> Inl (ValueError s)
      | Some n \<Rightarrow> Inr n)"

definition py_int :: "nat \<Rightarrow> pyval \<Rightarrow> exn + int" where
  "py_int m v = (case v of PyInt n \<Rightarrow> Inr n | PyStr s \<Rightarrow> int_of_str m s)"

section \<open>The web framework, as far as the module uses it\<close>

record request =
  req_method :: string
  path :: string
  query_string :: string
  headers :: "(string \<times> string) list"
  data :: string

datatype response =
    Response (status_code: nat) (mimetype: string) (body: string)
  | NotFound
  | MethodDefault
  | InternalServerError

type_synonym view = "request \<Rightarrow> process \<Rightarrow> (exn + string) \<times> process"

record rule =
  rule :: string
  endpoint :: string
  methods :: "string list"

record flask =
  import_name :: string
  url_map :: "rule list"
  view_functions :: "string \<rightharpoonup> view"

text \<open>
  Modelled from the spec: the package \<^verbatim>\<open>flask\<close> that app.py imports is not under src/.
  \<^verbatim>\<open>Flask(name)\<close> is an application with no route registered by the author.
\<close>

definition Flask :: "string \<Rightarrow> flask" where
  "Flask name = \<lparr>import_name = name, url_map = [], view_functions = Map.empty\<rparr>"

text \<open>
  Modelled from the spec: the decorator \<^verbatim>\<open>app.route\<close> of the missing package \<^verbatim>\<open>flask\<close>.
  It binds a path to a handler in the routing table, under the handler's name, for GET requests.
\<close>

definition route :: "string \<Rightarrow> string \<Rightarrow> view \<Rightarrow> flask \<Rightarrow> flask" where
  "route r name f a =
     a\<lparr>url_map := url_map a @ [\<lparr>rule = r, endpoint = name, methods = [''GET'']\<rparr>],
       view_functions := (view_functions a)(name \<mapsto> f)\<rparr>"

text \<open>
  Modelled from the spec: how the missing package \<^verbatim>\<open>flask\<close> turns a handler's string into
  a response: status 200, content type text/html, the string as the body.
\<close>

definition make_response :: "string \<Rightarrow> response" where
  "make_response rv = Response 200 ''text/html'' rv"

text \<open>
  Modelled from the spec: request dispatch of the missing package \<^verbatim>\<open>flask\<close>. The path of
  the request (the query string is no part of it) is looked up in the routing table. A
  path with no route gets the default not-found response. Where a route matches, a
  request with one of the route's methods is answered by the handler; an exception of the
  handler becomes the default server-error response. What the framework answers to other
  methods on a registered path is not described and is kept abstract as
  \<open>MethodDefault\<close>.
\<close>

definition dispatch_request :: "flask \<Rightarrow> request \<Rightarrow> process \<Rightarrow> response \<times> process" where
  "dispatch_request a req p =
     (case find (\<lambda>r. rule r = path req) (url_map a) of
        None \<Rightarrow> (NotFound, p)
      | Some r \<Rightarrow>
          if req_method req \<in> set (methods r) then
            (case view_functions a (endpoint r) of
               None \<Rightarrow> (InternalServerError, p)
             | Some f \<Rightarrow>
                 (case f req p of
                    (Inl e, p') \<Rightarrow> (InternalServerError, p')
                  | (Inr rv, p') \<Rightarrow> (make_response rv, p')))
          else (MethodDefault, p))"

text \<open>The server answers the requests it receives one after the other.\<close>

fun serve :: "flask \<Rightarrow> request list \<Rightarrow> process \<Rightarrow> response list \<times> process" where
  "serve a [] p = ([], p)"
| "serve a (req # reqs) p =
     (case dispatch_request a req p of
        (resp, p') \<Rightarrow> (case serve a reqs p' of (resps, p'') \<Rightarrow> (resp # resps, p'')))"

text \<open>
  Modelled from the spec: \<^verbatim>\<open>app.run(host, port)\<close> of the missing package \<^verbatim>\<open>flask\<close>
  starts the development server on the given host and port. Whether the start succeeds is
  decided outside the program (the port may be in use, or out of range): the parameter
  \<open>start\<close> gives the exception raised for a host and a port, if any.
\<close>

definition run ::
  "(string \<Rightarrow> int \<Rightarrow> exn option) \<Rightarrow> string \<Rightarrow> int \<Rightarrow> process \<Rightarrow> (exn + unit) \<times> process" where
  "run start host port p =
     (let p' = p\<lparr>run_calls := run_calls p @ [(host, port)]\<rparr>
      in case start host port of
           Some e \<Rightarrow> (Inl e, p')
         | None \<Rightarrow> (Inr (), p'\<lparr>serving := Some (host, port)\<rparr>))"

section \<open>The module app.py\<close>

text \<open>The handler \<^verbatim>\<open>index\<close> returns a string literal (lines 8 to 53 of app.py).\<close>

definition index_html :: string where
  \<open>index_html = ''
    <!DOCTYPE html>
    <html lang="en">
    <head>
        <meta charset="UTF-8">
        <meta name="viewport" content="width=device-width, initial-scale=1.0">
        <title>Flask App Template</title>
        <style>
            * { margin: 0; padding: 0; box-sizing: border-box; }
            body {
                font-family: -apple-system, BlinkMacSystemFont, 'Segoe UI', Roboto, sans-serif;
                display: flex;
                justify-content: center;
                align-items: center;
                min-height: 100vh;
                background: linear-gradient(135deg, #3776ab 0%, #ffd43b 100%);
                color: white;
            }
            .container {
                text-align: center;
                padding: 2rem;
                background: rgba(0, 0, 0, 0.3);
                border-radius: 12px;
            }
            h1 { font-size: 2.5rem; margin-bottom: 1rem; }
            p { font-size: 1.1rem; opacity: 0.9; }
            .status {
                margin-top: 1.5rem;
                padding: 1rem;
                background: rgba(255, 255, 255, 0.1);
                border-radius: 8px;
            }
            code { background: rgba(0, 0, 0, 0.3); padding: 0.2rem 0.5rem; border-radius: 4px; }
        </style>
    </head>
    <body>
        <div class="container">
            <h1>Flask App Template</h1>
            <p>Your Flask application is running!</p>
            <div class="status">
                <p>Replace this file with your own code in <code>html/app.py</code></p>
            </div>
        </div>
    </body>
    </html>
    ''\<close>

definition index :: view where
  "index req p = (Inr index_html, p)"

text \<open>
  The application object once the top level of the module has run up to line 53:
  \<^verbatim>\<open>app = Flask(__name__)\<close>, then the decorator \<^verbatim>\<open>@app.route('/')\<close> on \<^verbatim>\<open>index\<close>.
\<close>

definition app :: "string \<Rightarrow> flask" where
  "app name = route ''/'' ''index'' index (Flask name)"

text \<open>
  Running the module under the name \<open>name\<close> (\<^verbatim>\<open>__name__\<close>). The arguments of
  \<^verbatim>\<open>app.run\<close> are evaluated before the call, so an exception of \<^verbatim>\<open>int\<close> ends the
  module before \<^verbatim>\<open>app.run\<close> is entered. No statement of the module catches an exception.
\<close>

definition module ::
  "string \<Rightarrow> (string \<Rightarrow> int \<Rightarrow> exn option) \<Rightarrow> process \<Rightarrow> (exn + flask) \<times> process" where
  "module name start p =
     (let a = app name
      in if name = ''__main__'' then
           (case environ_get ''PORT'' (PyInt 8000) p of
              (v, p1) \<Rightarrow>
                (case py_int (int_max_str_digits p1) v of
                   Inl e \<Rightarrow> (Inl e, p1)
                 | Inr port \<Rightarrow>
                     (case run start ''0.0.0.0'' port p1 of
                        (Inl e, p2) \<Rightarrow> (Inl e, p2)
                      | (Inr u, p2) \<Rightarrow> (Inr a, p2))))
         else (Inr a, p))"

section \<open>Sample inputs\<close>

text \<open>
  Outcomes of starting the server: one that always succeeds, one where the port is taken.
\<close>

definition start_ok :: "string \<Rightarrow> int \<Rightarrow> exn option" where
  "start_ok host port = None"

definition port_in_use :: "string \<Rightarrow> int \<Rightarrow> exn option" where
  "port_in_use host port = Some (OSError ''Address already in use'')"

text \<open>
  A process that has read nothing and started nothing yet, with a given environment and
  the interpreter's default limit of 4300 digits.
\<close>

definition fresh_process :: "(string \<rightharpoonup> nat list) \<Rightarrow> process" where
  "fresh_process env =
     \<lparr>environ = env, env_reads = [], run_calls = [], serving = None,
      int_max_str_digits = 4300\<rparr>"

definition env_unset :: "string \<rightharpoonup> nat list" where
  "env_unset = Map.empty"

definition env_port :: "string \<Rightarrow> (string \<rightharpoonup> nat list)" where
  "env_port v = [''PORT'' \<mapsto> ustr v]"

definition example_get :: request where
  "example_get = \<lparr>req_method = ''GET'', path = ''/'', query_string = ''utm=1'',
     headers = [(''Accept'', ''*/*'')], data = ''''\<rparr>"

definition example_about :: request where
  "example_about = \<lparr>req_method = ''GET'', path = ''/about'', query_string = '''',
     headers = [], data = ''''\<rparr>"

section \<open>Auxiliary facts\<close>

subsection \<open>The conversion of strings to integers\<close>

lemmas int_defs =
  int_of_str_def long_from_string_def py_isspace_def unicode_isspace_def
  unicode_todecimal_def decimal_zeros_def is_digit_def digit_value_def ustr_def

lemma int_of_str_9999: "int_of_str m (ustr ''9999'') = Inr 9999"
  by (simp add: int_defs)

lemma int_of_str_abc: "int_of_str m (ustr ''abc'') = Inl (ValueError (ustr ''abc''))"
  by (simp add: int_defs)

text \<open>
  Strings that \<^verbatim>\<open>int\<close> accepts: whitespace at the ends, a sign, underscores between
  digits, leading zeros, and digits and whitespace from beyond ASCII (Arabic-Indic digits
  1633 and 1634, ideographic space 12288, no-break space 160, fullwidth digits).
\<close>

lemma int_of_str_accepts:
  "map (int_of_str 4300)
     [ustr '' 12 '', ustr ''+5'', ustr ''-5'', ustr ''1_000'', ustr ''007'', ustr ''-0'',
      ustr ''8000\<newline>'', [1633, 1634], [12288, 49, 50, 8195], [160, 49, 50, 133],
      [1633, 95, 1634], [43, 1633], [65297, 65298]]
     = map Inr [12, 5, -5, 1000, 7, 0, 8000, 12, 12, 12, 12, 1, 12]"
  by (simp add: int_defs)

text \<open>
  Strings that \<^verbatim>\<open>int\<close> refuses, among them the ASCII separators 28 and 30, which
  \<^verbatim>\<open>str.isspace\<close> accepts and \<^verbatim>\<open>int\<close> does not skip, whitespace inside the number, a
  NUL character, and the superscript two (178), a digit that is not a decimal digit.
\<close>

lemma int_of_str_rejects:
  "list_all (\<lambda>s. int_of_str 4300 s = Inl (ValueError s))
     [ustr '''', ustr ''abc'', ustr ''_1'', ustr ''1__0'', ustr ''1_'', ustr ''+ 5'',
      ustr ''0x10'', ustr ''+'', ustr ''1 2'', ustr ''8000.0'', ustr ''--1'',
      [28, 49, 50], [56, 48, 56, 48, 30], [49, 160, 50], [127, 49], [49, 50, 0], [178],
      [49, 233]]"
  by (simp add: int_defs)

lemma int_of_str_error: "int_of_str m s = Inl e \<Longrightarrow> e = ValueError s"
  by (simp add: int_of_str_def split: option.splits)

lemma transform_digits: "\<forall>c\<in>set s. is_digit c \<Longrightarrow> transform_to_ascii s = s"
  by (induction s) (auto simp: is_digit_def)

text \<open>A string of digits longer than the limit (and than 640) is refused.\<close>

lemma digits_limit:
  assumes "\<forall>c\<in>set s. is_digit c" and "640 < length s" and "0 < m" and "m < length s"
  shows "int_of_str m s = Inl (ValueError s)"
proof -
  from assms(2) obtain c cs where s: "s = c # cs"
    by (cases s) auto
  with assms(1) have "is_digit c"
    by simp
  then have "\<not> py_isspace c" "c \<noteq> 45" "c \<noteq> 43"
    by (auto simp: is_digit_def py_isspace_def)
  moreover have "takeWhile (\<lambda>c. is_digit c \<or> c = 95) s = s"
    using assms(1) by (simp add: takeWhile_eq_all_conv)
  moreover have "filter is_digit s = s"
    using assms(1) by (simp add: filter_id_conv)
  ultimately have "long_from_string m s = None"
    using assms(2-4) s by (simp add: long_from_string_def Let_def)
  then show ?thesis
    by (simp add: int_of_str_def transform_digits [OF assms(1)])
qed

lemma int_of_str_4301_zeros:
  "int_of_str 4300 (replicate 4301 48) = Inl (ValueError (replicate 4301 48))"
  by (rule digits_limit) (simp_all add: is_digit_def)

subsection \<open>The literal, dispatch and the module\<close>

lemma index_html_title: "sublist ''Flask App Template'' index_html"
proof -
  have "index_html = take 178 index_html @ ''Flask App Template'' @ drop 196 index_html"
    by (simp add: index_html_def)
  then show ?thesis
    unfolding sublist_def by blast
qed

lemma index_html_shape:
  "index_html = ''\<newline>    '' @ take 1598 (drop 5 index_html) @ ''\<newline>    ''"
  by (simp add: index_html_def)

lemma index_html_doc_start: "prefix ''<!DOCTYPE html>'' (take 1598 (drop 5 index_html))"
  by (simp add: index_html_def)

lemma index_html_doc_end:
  "take 1598 (drop 5 index_html) = take 1591 (drop 5 index_html) @ ''</html>''"
  by (simp add: index_html_def)

text \<open>Dispatch on the application of the module, by cases on the path and the method.\<close>

lemma dispatch_app:
  "dispatch_request (app name) req p =
     (if path req = ''/'' then
        (if req_method req = ''GET'' then (Response 200 ''text/html'' index_html, p)
         else (MethodDefault, p))
      else (NotFound, p))"
  by (simp add: dispatch_request_def app_def route_def Flask_def index_def make_response_def)

lemma serve_app_state: "snd (serve (app name) reqs p) = p"
  by (induction reqs) (auto simp: dispatch_app split: prod.splits)

lemma module_import: "name \<noteq> ''__main__'' \<Longrightarrow> module name start p = (Inr (app name), p)"
  by (simp add: module_def)

lemma module_main:
  "module ''__main__'' start p =
     (let p1 = p\<lparr>env_reads := env_reads p @ [''PORT'']\<rparr>
      in case py_int (int_max_str_digits p)
             (case environ p ''PORT'' of None \<Rightarrow> PyInt 8000 | Some v \<Rightarrow> PyStr v) of
           Inl e \<Rightarrow> (Inl e, p1)
         | Inr port \<Rightarrow>
             (let p2 = p1\<lparr>run_calls := run_calls p @ [(''0.0.0.0'', port)]\<rparr>
              in case start ''0.0.0.0'' port of
                   Some e \<Rightarrow> (Inl e, p2)
                 | None \<Rightarrow>
                     (Inr (app ''__main__''), p2\<lparr>serving := Some (''0.0.0.0'', port)\<rparr>)))"
  by (simp add: module_def environ_get_def run_def Let_def split: sum.splits option.splits)

text \<open>
  Two values of PORT that \<^verbatim>\<open>int\<close> refuses: the separator 28 before "12", and 4301
  zeros with the default limit. The module ends with \<^verbatim>\<open>ValueError\<close> and \<^verbatim>\<open>app.run\<close> is
  not called.
\<close>

lemma module_separator_port:
  "fst (module ''__main__'' start_ok (fresh_process [''PORT'' \<mapsto> [28, 49, 50]]))
     = Inl (ValueError [28, 49, 50])
   \<and> run_calls (snd (module ''__main__'' start_ok (fresh_process [''PORT'' \<mapsto> [28, 49, 50]])))
       = []"
  by (simp add: module_main fresh_process_def py_int_def int_defs)

lemma module_too_many_digits:
  "fst (module ''__main__'' start_ok (fresh_process [''PORT'' \<mapsto> replicate 4301 48]))
     = Inl (ValueError (replicate 4301 48))
   \<and> run_calls
         (snd (module ''__main__'' start_ok (fresh_process [''PORT'' \<mapsto> replicate 4301 48])))
       = []"
  using int_of_str_4301_zeros
  by (simp add: module_main fresh_process_def py_int_def)

section \<open>The claims\<close>

text \<open>
  C1. Every GET request for the path / is answered by the registered handler
  \<open>index\<close>: the response has status 200 and content type text/html, and its body is
  the string literal of the source, which contains the title text "Flask App Template".
\<close>

theorem get_root_response:
  "req_method req = ''GET'' \<Longrightarrow> path req = ''/'' \<Longrightarrow>
     view_functions (app name) ''index'' = Some index
     \<and> index req p = (Inr index_html, p)
     \<and> dispatch_request (app name) req p = (Response 200 ''text/html'' index_html, p)
     \<and> sublist ''Flask App Template'' index_html"
proof -
  have "view_functions (app name) ''index'' = Some index"
    by (simp add: app_def route_def)
  then show "req_method req = ''GET'' \<Longrightarrow> path req = ''/'' \<Longrightarrow> ?thesis"
    by (simp add: dispatch_app index_html_title index_def)
qed

theorem get_root_response_witness:
  "req_method example_get = ''GET'' \<and> path example_get = ''/''
   \<and> dispatch_request (app ''__main__'') example_get (fresh_process env_unset)
       = (Response 200 ''text/html'' index_html, fresh_process env_unset)"
  using get_root_response [of example_get "''__main__''" "fresh_process env_unset"]
  by (simp add: example_get_def)

text \<open>
  C2. Any two calls of the handler \<open>index\<close> return the same body, whatever the two
  requests and the two process states are: the handler reads neither. It also leaves the
  process state as it found it.
\<close>

theorem index_constant:
  "fst (index req1 p1) = fst (index req2 p2) \<and> snd (index req1 p1) = p1"
  by (simp add: index_def)

text \<open>
  C3. Run as the main program, the module calls \<^verbatim>\<open>app.run\<close> with host 0.0.0.0 and the
  resolved port: 9999 when PORT is set to "9999", 8000 when PORT is unset. When the start
  of the server raises nothing, the server listens on that address.
\<close>

theorem main_listens:
  "(environ p ''PORT'' = Some (ustr ''9999'') \<longrightarrow>
      run_calls (snd (module ''__main__'' start p)) = run_calls p @ [(''0.0.0.0'', 9999)]
      \<and> (start ''0.0.0.0'' 9999 = None \<longrightarrow>
           serving (snd (module ''__main__'' start p)) = Some (''0.0.0.0'', 9999)))
   \<and> (environ p ''PORT'' = None \<longrightarrow>
      run_calls (snd (module ''__main__'' start p)) = run_calls p @ [(''0.0.0.0'', 8000)]
      \<and> (start ''0.0.0.0'' 8000 = None \<longrightarrow>
           serving (snd (module ''__main__'' start p)) = Some (''0.0.0.0'', 8000)))"
  by (simp add: module_main py_int_def int_of_str_9999 Let_def split: option.splits)

theorem main_listens_witness:
  "environ (fresh_process (env_port ''9999'')) ''PORT'' = Some (ustr ''9999'')
   \<and> start_ok ''0.0.0.0'' 9999 = None
   \<and> run_calls (snd (module ''__main__'' start_ok (fresh_process (env_port ''9999''))))
       = [(''0.0.0.0'', 9999)]
   \<and> serving (snd (module ''__main__'' start_ok (fresh_process (env_port ''9999''))))
       = Some (''0.0.0.0'', 9999)
   \<and> environ (fresh_process env_unset) ''PORT'' = None
   \<and> start_ok ''0.0.0.0'' 8000 = None
   \<and> run_calls (snd (module ''__main__'' start_ok (fresh_process env_unset)))
       = [(''0.0.0.0'', 8000)]
   \<and> serving (snd (module ''__main__'' start_ok (fresh_process env_unset)))
       = Some (''0.0.0.0'', 8000)"
  using main_listens [of "fresh_process (env_port ''9999'')" start_ok]
    main_listens [of "fresh_process env_unset" start_ok]
  by (simp add: fresh_process_def env_port_def env_unset_def start_ok_def)

text \<open>
  C4. When PORT is set to a string that \<^verbatim>\<open>int\<close> does not accept, the module run as the
  main program ends with the \<^verbatim>\<open>ValueError\<close> of the conversion; \<^verbatim>\<open>app.run\<close> is not
  called and no server is started, so there is no fall back to port 8000. When PORT is set
  to a string that \<^verbatim>\<open>int\<close> accepts, the port passed on is the value of that string: the
  default is used only when PORT is unset.
\<close>

theorem invalid_port_raises:
  "environ p ''PORT'' = Some s \<Longrightarrow>
     ((\<forall>n. int_of_str (int_max_str_digits p) s \<noteq> Inr n) \<longrightarrow>
        fst (module ''__main__'' start p) = Inl (ValueError s)
        \<and> run_calls (snd (module ''__main__'' start p)) = run_calls p
        \<and> serving (snd (module ''__main__'' start p)) = serving p)
     \<and> (\<forall>n. int_of_str (int_max_str_digits p) s = Inr n \<longrightarrow>
        run_calls (snd (module ''__main__'' start p)) = run_calls p @ [(''0.0.0.0'', n)])"
  by (auto simp: module_main py_int_def Let_def split: option.splits sum.splits
      dest: int_of_str_error)

theorem invalid_port_raises_witness:
  "environ (fresh_process (env_port ''abc'')) ''PORT'' = Some (ustr ''abc'')
   \<and> (\<forall>n. int_of_str 4300 (ustr ''abc'') \<noteq> Inr n)
   \<and> fst (module ''__main__'' start_ok (fresh_process (env_port ''abc'')))
       = Inl (ValueError (ustr ''abc''))
   \<and> run_calls (snd (module ''__main__'' start_ok (fresh_process (env_port ''abc'')))) = []
   \<and> environ (fresh_process (env_port ''9999'')) ''PORT'' = Some (ustr ''9999'')
   \<and> int_of_str 4300 (ustr ''9999'') = Inr 9999
   \<and> run_calls (snd (module ''__main__'' start_ok (fresh_process (env_port ''9999''))))
       = [(''0.0.0.0'', 9999)]"
  using invalid_port_raises [of "fresh_process (env_port ''abc'')" "ustr ''abc''" start_ok]
    invalid_port_raises [of "fresh_process (env_port ''9999'')" "ustr ''9999''" start_ok]
  by (simp add: fresh_process_def env_port_def int_of_str_abc int_of_str_9999)

text \<open>
  C5. The routing table of the application holds exactly one route registered by the
  module, for the path /, bound to \<open>index\<close>. A request for any other path matches no
  route and gets the default not-found response of the framework.
\<close>

theorem only_root_route:
  "map rule (url_map (app name)) = [''/'']
   \<and> dom (view_functions (app name)) = {''index''}
   \<and> (path req \<noteq> ''/'' \<longrightarrow>
        find (\<lambda>r. rule r = path req) (url_map (app name)) = None
        \<and> dispatch_request (app name) req p = (NotFound, p))"
  by (simp add: dispatch_app) (auto simp: app_def route_def Flask_def)

theorem only_root_route_witness:
  "path example_about \<noteq> ''/''
   \<and> find (\<lambda>r. rule r = path example_about) (url_map (app ''__main__'')) = None
   \<and> dispatch_request (app ''__main__'') example_about (fresh_process env_unset)
       = (NotFound, fresh_process env_unset)"
  using only_root_route [of "''__main__''" example_about "fresh_process env_unset"]
  by (simp add: example_about_def)

text \<open>
  C6. The module run as the main program reads PORT from the environment exactly once.
  Running the module, under any name, leaves the environment as it was. Once the module
  has run, answering any sequence of requests changes nothing in the process state: the
  environment, the log of reads and the address the server listens on stay the same.
\<close>

theorem port_read_once:
  "count_list (env_reads (snd (module ''__main__'' start p))) ''PORT''
     = count_list (env_reads p) ''PORT'' + 1
   \<and> environ (snd (module name start p)) = environ p
   \<and> snd (serve (app name) reqs (snd (module name start p))) = snd (module name start p)
   \<and> environ (snd (serve (app name) reqs (snd (module name start p)))) = environ p"
proof -
  have "environ (snd (module name start p)) = environ p"
    by (cases "name = ''__main__''")
      (simp_all add: module_main module_import Let_def split: sum.splits option.splits)
  moreover have "count_list (env_reads (snd (module ''__main__'' start p))) ''PORT''
     = count_list (env_reads p) ''PORT'' + 1"
    by (simp add: module_main Let_def split: sum.splits option.splits)
  ultimately show ?thesis
    by (simp add: serve_app_state)
qed

text \<open>
  C7. A failure at startup leaves the module as the exception that was raised, and
  nothing is tried again. When \<^verbatim>\<open>int\<close> raises on the value of PORT, the module ends with
  that exception and \<^verbatim>\<open>app.run\<close> is not called. When the start of the server raises,
  the module ends with that exception after this one call of \<^verbatim>\<open>app.run\<close>, and no server
  is listening. Conversely every exception the module ends with is one of these two, so
  none is caught or replaced by another. In every case \<^verbatim>\<open>app.run\<close> is called at most
  once and PORT is read at most once.
\<close>

theorem startup_failures_propagate:
  "(py_int (int_max_str_digits p) (fst (environ_get ''PORT'' (PyInt 8000) p)) = Inl e \<longrightarrow>
      fst (module ''__main__'' start p) = Inl e
      \<and> run_calls (snd (module ''__main__'' start p)) = run_calls p)
   \<and> (py_int (int_max_str_digits p) (fst (environ_get ''PORT'' (PyInt 8000) p)) = Inr port
       \<and> start ''0.0.0.0'' port = Some e \<longrightarrow>
      fst (module ''__main__'' start p) = Inl e
      \<and> run_calls (snd (module ''__main__'' start p)) = run_calls p @ [(''0.0.0.0'', port)]
      \<and> serving (snd (module ''__main__'' start p)) = serving p)
   \<and> (fst (module name start p) = Inl e \<longrightarrow>
      name = ''__main__''
      \<and> (py_int (int_max_str_digits p) (fst (environ_get ''PORT'' (PyInt 8000) p)) = Inl e
         \<or> (\<exists>port.
               py_int (int_max_str_digits p) (fst (environ_get ''PORT'' (PyInt 8000) p))
                 = Inr port
               \<and> start ''0.0.0.0'' port = Some e)))
   \<and> length (run_calls (snd (module name start p))) \<le> length (run_calls p) + 1
   \<and> length (env_reads (snd (module name start p))) \<le> length (env_reads p) + 1"
  by (cases "name = ''__main__''")
    (auto simp: module_main module_import environ_get_def Let_def
      split: sum.splits option.splits)

theorem startup_failures_propagate_witness:
  "py_int 4300 (fst (environ_get ''PORT'' (PyInt 8000) (fresh_process (env_port ''abc''))))
     = Inl (ValueError (ustr ''abc''))
   \<and> fst (module ''__main__'' start_ok (fresh_process (env_port ''abc'')))
       = Inl (ValueError (ustr ''abc''))
   \<and> run_calls (snd (module ''__main__'' start_ok (fresh_process (env_port ''abc'')))) = []
   \<and> py_int 4300 (fst (environ_get ''PORT'' (PyInt 8000) (fresh_process env_unset)))
       = Inr 8000
   \<and> port_in_use ''0.0.0.0'' 8000 = Some (OSError ''Address already in use'')
   \<and> fst (module ''__main__'' port_in_use (fresh_process env_unset))
       = Inl (OSError ''Address already in use'')
   \<and> run_calls (snd (module ''__main__'' port_in_use (fresh_process env_unset)))
       = [(''0.0.0.0'', 8000)]
   \<and> serving (snd (module ''__main__'' port_in_use (fresh_process env_unset))) = None"
  using startup_failures_propagate [where p = "fresh_process (env_port ''abc'')"
      and e = "ValueError (ustr ''abc'')" and start = start_ok and name = "''__main__''"]
    startup_failures_propagate [where p = "fresh_process env_unset"
      and e = "OSError ''Address already in use''" and port = 8000 and start = port_in_use
      and name = "''__main__''"]
  by (simp add: fresh_process_def env_port_def env_unset_def environ_get_def py_int_def
      int_of_str_abc port_in_use_def)

text \<open>
  C8, as stated, fails: run as the main program with PORT set to "abc", the module ends
  with the \<^verbatim>\<open>ValueError\<close> of \<^verbatim>\<open>int\<close> before \<^verbatim>\<open>app.run\<close> is entered, so the module is
  the main program and \<^verbatim>\<open>app.run\<close> is not called.
\<close>

theorem entry_point_counterexample:
  "run_calls (snd (module ''__main__'' start_ok (fresh_process (env_port ''abc'')))) = []
   \<and> serving (snd (module ''__main__'' start_ok (fresh_process (env_port ''abc'')))) = None
   \<and> fst (module ''__main__'' start_ok (fresh_process (env_port ''abc'')))
       = Inl (ValueError (ustr ''abc''))"
  by (simp add: module_main fresh_process_def env_port_def py_int_def int_of_str_abc)

text \<open>
  C8, amended. \<^verbatim>\<open>app.run\<close> is called if and only if the module is executed as the main
  program and the port resolves, that is PORT is unset or \<^verbatim>\<open>int\<close> accepts its value.
  Importing the module (running it under any other name) gives the application with the
  route for / bound to \<open>index\<close> and leaves the process state unchanged: no server is started.
\<close>

theorem entry_point_conditional:
  "(run_calls (snd (module name start p)) \<noteq> run_calls p \<longleftrightarrow>
      name = ''__main__''
      \<and> (environ p ''PORT'' = None
         \<or> (\<exists>s n. environ p ''PORT'' = Some s
               \<and> int_of_str (int_max_str_digits p) s = Inr n)))
   \<and> (name \<noteq> ''__main__'' \<longrightarrow> module name start p = (Inr (app name), p))
   \<and> map rule (url_map (app name)) = [''/'']
   \<and> view_functions (app name) ''index'' = Some index"
  by (cases "name = ''__main__''")
    (auto simp: module_main module_import py_int_def Let_def app_def route_def Flask_def
      split: sum.splits option.splits)

theorem entry_point_conditional_witness:
  "''app'' \<noteq> ''__main__''
   \<and> module ''app'' start_ok (fresh_process env_unset)
       = (Inr (app ''app''), fresh_process env_unset)
   \<and> environ (fresh_process env_unset) ''PORT'' = None
   \<and> run_calls (snd (module ''__main__'' start_ok (fresh_process env_unset))) \<noteq> []"
  using entry_point_conditional [of "''app''" start_ok "fresh_process env_unset"]
    entry_point_conditional [of "''__main__''" start_ok "fresh_process env_unset"]
  by (simp add: fresh_process_def env_unset_def)

text \<open>
  C9. The handler \<open>index\<close> is total and never raises: for every request and every
  process state it returns a string, and its result is never an exception.
\<close>

theorem index_total:
  "(\<exists>s. index req p = (Inr s, p)) \<and> (\<forall>e. fst (index req p) \<noteq> Inl e)"
  by (simp add: index_def)

text \<open>
  C10. The body returned by \<open>index\<close> does not begin with "<!DOCTYPE": it is a newline
  and four spaces, then a document that begins with "<!DOCTYPE html>" and ends with
  "</html>", then again a newline and four spaces.
\<close>

theorem index_html_whitespace:
  "fst (index req p) = Inr index_html
   \<and> \<not> prefix ''<!DOCTYPE'' index_html
   \<and> (\<exists>doc. index_html = ''\<newline>    '' @ doc @ ''\<newline>    ''
          \<and> prefix ''<!DOCTYPE html>'' doc \<and> suffix ''</html>'' doc)"
proof -
  have "\<not> prefix ''<!DOCTYPE'' index_html"
    by (simp add: index_html_def)
  moreover have "suffix ''</html>'' (take 1598 (drop 5 index_html))"
    using index_html_doc_end by (metis suffixI)
  ultimately show ?thesis
    using index_html_shape index_html_doc_start by (auto simp: index_def)
qed

end
